theory Spec2Isabelle
  imports Complex_Main "HOL-Library.AList"
begin

section \<open>Values shared by the scoring core\<close>

text \<open>
  Python numbers (the ints and floats read from JSON and YAML) are modelled as
  \<^typ>\<open>real\<close>: comparisons are those of the denoted values and arithmetic is exact, so
  rounding of binary floating point is outside this development. Python's true division
  raises on a zero divisor; the model returns the error as a value.
\<close>

datatype py_error = ZeroDivisionError

definition py_truediv :: "real \<Rightarrow> real \<Rightarrow> py_error + real" where
  "py_truediv a b = (if b = 0 then Inl ZeroDivisionError else Inr (a / b))"

text \<open>
  JSON-like values, as stored in the consensus dictionary. A nested dictionary is an
  association list in insertion order.
\<close>

datatype jval =
    JNull
  | JBool bool
  | JNum real
  | JStr string
  | JList "jval list"
  | JObj "(string \<times> jval) list"

text \<open>
  An indicator dictionary \<open>{name, value, signal, timestamp}\<close>. The keys \<open>value\<close> and
  \<open>signal\<close> are read with a membership test or with \<open>get\<close> and a default, so each is
  optional: \<open>None\<close> is an absent key.
\<close>

record indicator =
  ind_name :: string
  ind_value :: "real option"
  ind_signal :: "string option"
  ind_timestamp :: string

section \<open>base_agent.py: determine_action\<close>

definition determine_action :: "real \<Rightarrow> string" where
  "determine_action score =
     (if score \<ge> 75 then ''STRONG_BUY''
      else if score \<ge> 60 then ''BUY''
      else if score \<le> 25 then ''STRONG_SELL''
      else if score \<le> 40 then ''SELL''
      else ''HOLD'')"

section \<open>risk_engine.py: the three hard checks\<close>

text \<open>
  The glyphs of the source's emoji literals are written here as ASCII names; no property
  below depends on their bytes. The f-string number formatting used in the flag
  descriptions is the parameter \<open>fmt\<close>: \<open>fmt spec x\<close> is Python's \<open>format(x, spec)\<close>.
\<close>

definition warning_emoji :: string where "warning_emoji = ''<warning-sign>''"
definition rainbow_emoji :: string where "rainbow_emoji = ''<rainbow>''"
definition pi_emoji :: string where "pi_emoji = ''<pi>''"
definition red_circle_emoji :: string where "red_circle_emoji = ''<red-circle>''"
definition yellow_circle_emoji :: string where "yellow_circle_emoji = ''<yellow-circle>''"

type_synonym formatter = "string \<Rightarrow> real \<Rightarrow> string"

definition check_cbbi_risk :: "formatter \<Rightarrow> indicator \<Rightarrow> jval option" where
  "check_cbbi_risk fmt indicator =
     (case ind_value indicator of
        None \<Rightarrow> None
      | Some cbbi_value \<Rightarrow>
          if cbbi_value \<ge> 0.8 then
            Some (JObj
              [(''flag'', JStr ''cbbi_high''),
               (''value'', JNum cbbi_value),
               (''threshold'', JNum 0.8),
               (''name'', JStr ''High CBBI''),
               (''description'', JStr (''CBBI value of '' @ fmt ''.2f'' cbbi_value
                    @ '' indicates extreme market euphoria'')),
               (''emoji'', JStr warning_emoji)])
          else None)"

definition check_rainbow_risk :: "formatter \<Rightarrow> indicator \<Rightarrow> jval option" where
  "check_rainbow_risk fmt indicator =
     (case ind_value indicator of
        None \<Rightarrow> None
      | Some band_value \<Rightarrow>
          if band_value \<ge> 7 then
            Some (JObj
              [(''flag'', JStr ''rainbow_top''),
               (''value'', JNum band_value),
               (''threshold'', JNum 7),
               (''name'', JStr ''Top Rainbow Band''),
               (''description'', JStr (''BTC price is in band '' @ fmt '''' band_value
                    @ '' of the Rainbow Chart, indicating potential top'')),
               (''emoji'', JStr rainbow_emoji)])
          else None)"

definition check_pi_cycle_risk :: "formatter \<Rightarrow> indicator \<Rightarrow> jval option" where
  "check_pi_cycle_risk fmt indicator =
     (case ind_value indicator of
        None \<Rightarrow> None
      | Some pi_value \<Rightarrow>
          if pi_value \<ge> 0.95 then
            Some (JObj
              [(''flag'', JStr ''pi_cycle_top''),
               (''value'', JNum pi_value),
               (''threshold'', JNum 0.95),
               (''name'', JStr ''Pi-Cycle Near Top''),
               (''description'', JStr (''Pi-Cycle value of '' @ fmt ''.2f'' pi_value
                    @ '' indicates potential market top'')),
               (''emoji'', JStr pi_emoji)])
          else None)"

definition record_flag :: "jval list \<times> string option \<Rightarrow> jval option \<Rightarrow> jval list \<times> string option" where
  \<comment> \<open>\<open>if risk: risk_flags.append(risk); forced_action = 'de-risk'\<close>\<close>
  "record_flag st risk =
     (case risk of None \<Rightarrow> st | Some flag \<Rightarrow> (fst st @ [flag], Some ''de-risk''))"

text \<open>
  The first half of \<open>apply_risk_overrides\<close>: the three checks, each run only when its
  indicator name is a key of the indicator dictionary. The result is the pair
  \<open>(risk_flags, forced_action)\<close>.
\<close>

definition collect_risk_flags ::
  "formatter \<Rightarrow> (string \<rightharpoonup> indicator) \<Rightarrow> jval list \<times> string option" where
  "collect_risk_flags fmt inds =
     (let st = ([], None);
          st = (case inds ''Cbbi'' of
                  None \<Rightarrow> st | Some i \<Rightarrow> record_flag st (check_cbbi_risk fmt i));
          st = (case inds ''Rainbow Bands'' of
                  None \<Rightarrow> st | Some i \<Rightarrow> record_flag st (check_rainbow_risk fmt i));
          st = (case inds ''Pi Cycle'' of
                  None \<Rightarrow> st | Some i \<Rightarrow> record_flag st (check_pi_cycle_risk fmt i))
      in st)"

section \<open>The action threshold table\<close>

text \<open>
  One band \<open>{min?, max?, action, emoji}\<close> of the table; every key is read with a
  membership test or \<open>get\<close>, so every field is optional. The configuration dictionary is
  represented by what it holds under \<open>consensus_to_action\<close> (\<open>None\<close>: the key is absent).
\<close>

record band =
  band_min :: "real option"
  band_max :: "real option"
  band_action :: "string option"
  band_emoji :: "string option"

type_synonym action_map = "band list option"

definition consensus_to_action :: "action_map \<Rightarrow> band list" where
  \<comment> \<open>\<open>action_map.get('consensus_to_action', [])\<close>\<close>
  "consensus_to_action cfg = (case cfg of None \<Rightarrow> [] | Some bands \<Rightarrow> bands)"

section \<open>risk_engine.py: apply_risk_overrides\<close>

text \<open>
  The consensus is a dictionary from keys to JSON values. The action map that the source
  loads from disk inside the function is the parameter \<open>config\<close>.
\<close>

type_synonym consensus = "string \<rightharpoonup> jval"

definition apply_risk_overrides ::
  "formatter \<Rightarrow> action_map \<Rightarrow> consensus \<Rightarrow> (string \<rightharpoonup> indicator) \<Rightarrow> consensus" where
  "apply_risk_overrides fmt config cons inds =
     (let (risk_flags, forced_action) = collect_risk_flags fmt inds;
          updated_consensus = cons(''risk_flags'' \<mapsto> JList risk_flags)
      in case forced_action of
           Some forced \<Rightarrow>
             if risk_flags \<noteq> [] then
               (let action_mapping =
                      find (\<lambda>mapping. band_action mapping = Some forced)
                        (consensus_to_action config);
                    previous_action =
                      (case updated_consensus ''action'' of
                         None \<Rightarrow> JStr ''hold'' | Some a \<Rightarrow> a);
                    emoji =
                      (case action_mapping of
                         None \<Rightarrow> red_circle_emoji
                       | Some mapping \<Rightarrow>
                           (case band_emoji mapping of
                              None \<Rightarrow> red_circle_emoji | Some e \<Rightarrow> e))
                in updated_consensus
                     (''original_action'' \<mapsto> previous_action,
                      ''action'' \<mapsto> JStr forced,
                      ''emoji'' \<mapsto> JStr emoji,
                      ''risk_override'' \<mapsto> JBool True))
             else updated_consensus(''risk_override'' \<mapsto> JBool False)
         | None \<Rightarrow> updated_consensus(''risk_override'' \<mapsto> JBool False))"

section \<open>aggregate_votes.py\<close>

text \<open>
  An agent output as the aggregator reads it: \<open>score\<close> and \<open>action\<close>, both fetched with
  \<open>get\<close> and a default.
\<close>

record agent_output =
  out_score :: "real option"
  out_action :: "string option"

definition calculate_consensus_pct :: "agent_output list \<Rightarrow> py_error + real" where
  "calculate_consensus_pct agent_outputs =
     (if agent_outputs = [] then Inr 50
      else
        (let total_score =
               sum_list (map (\<lambda>output. case out_score output of
                                          None \<Rightarrow> 50 | Some s \<Rightarrow> s) agent_outputs)
         in py_truediv total_score (real (length agent_outputs))))"

record action_result =
  res_action :: string
  res_emoji :: string

definition band_result :: "band \<Rightarrow> action_result" where
  \<comment> \<open>\<open>{'action': mapping.get('action', 'hold'), 'emoji': mapping.get('emoji', ...)}\<close>\<close>
  "band_result mapping =
     \<lparr>res_action = (case band_action mapping of None \<Rightarrow> ''hold'' | Some a \<Rightarrow> a),
      res_emoji = (case band_emoji mapping of
                     None \<Rightarrow> yellow_circle_emoji | Some e \<Rightarrow> e)\<rparr>"

definition below_max :: "band \<Rightarrow> real \<Rightarrow> bool" where
  \<comment> \<open>\<open>'max' in mapping and consensus_pct < mapping['max']\<close>\<close>
  "below_max mapping pct =
     (case band_max mapping of None \<Rightarrow> False | Some mx \<Rightarrow> pct < mx)"

definition at_least_min :: "band \<Rightarrow> real \<Rightarrow> bool" where
  \<comment> \<open>\<open>'min' in mapping and consensus_pct >= mapping['min']\<close>\<close>
  "at_least_min mapping pct =
     (case band_min mapping of None \<Rightarrow> False | Some mn \<Rightarrow> pct \<ge> mn)"

fun scan_bands :: "real \<Rightarrow> band list \<Rightarrow> action_result" where
  "scan_bands pct [] = \<lparr>res_action = ''hold'', res_emoji = yellow_circle_emoji\<rparr>"
| "scan_bands pct (mapping # rest) =
     (if below_max mapping pct then band_result mapping
      else if at_least_min mapping pct \<and> below_max mapping pct then band_result mapping
      else if at_least_min mapping pct \<and> band_max mapping = None then band_result mapping
      else scan_bands pct rest)"

definition map_consensus_to_action :: "real \<Rightarrow> action_map \<Rightarrow> action_result" where
  "map_consensus_to_action consensus_pct cfg =
     scan_bands consensus_pct (consensus_to_action cfg)"

text \<open>
  The membership test of the specification, band by band: only a max, \<open>value < max\<close>;
  both bounds, \<open>min \<le> value < max\<close>; only a min, \<open>value \<ge> min\<close>.
\<close>

definition half_open_match :: "band \<Rightarrow> real \<Rightarrow> bool" where
  "half_open_match b v =
     (case (band_min b, band_max b) of
        (None, None) \<Rightarrow> False
      | (None, Some mx) \<Rightarrow> v < mx
      | (Some mn, Some mx) \<Rightarrow> mn \<le> v \<and> v < mx
      | (Some mn, None) \<Rightarrow> mn \<le> v)"

text \<open>
  Vote counting. The dictionary \<open>action_counts\<close> is an association list in insertion
  order; \<open>AList.update\<close> overwrites the value of a present key in place and appends an
  absent key at the end, as assignment to a Python dictionary does.
\<close>

definition vote_action :: "agent_output \<Rightarrow> string" where
  \<comment> \<open>\<open>output.get('action', 'HOLD')\<close>\<close>
  "vote_action output = (case out_action output of None \<Rightarrow> ''HOLD'' | Some a \<Rightarrow> a)"

fun count_votes :: "(string \<times> nat) list \<Rightarrow> agent_output list \<Rightarrow> (string \<times> nat) list" where
  "count_votes action_counts [] = action_counts"
| "count_votes action_counts (output # rest) =
     (let action = vote_action output;
          previous = (case map_of action_counts action of None \<Rightarrow> 0 | Some c \<Rightarrow> c)
      in count_votes (AList.update action (previous + 1) action_counts) rest)"

fun first_max_item :: "string \<times> nat \<Rightarrow> (string \<times> nat) list \<Rightarrow> string \<times> nat" where
  \<comment> \<open>Python's \<open>max(items, key=...)\<close>: the first item with the greatest key wins.\<close>
  "first_max_item best [] = best"
| "first_max_item best (item # rest) =
     first_max_item (if snd best < snd item then item else best) rest"

record distribution_report =
  distribution :: "(string \<times> nat) list"
  agreement_level :: real
  majority_action :: "string option"

definition analyze_agent_distribution ::
  "agent_output list \<Rightarrow> py_error + distribution_report" where
  "analyze_agent_distribution agent_outputs =
     (if length agent_outputs \<le> 1 then
        Inr \<lparr>distribution = [], agreement_level = 1, majority_action = None\<rparr>
      else
        (let action_counts = count_votes [] agent_outputs;
             max_count = (case action_counts of
                            [] \<Rightarrow> 0
                          | c # cs \<Rightarrow> fold max (map snd cs) (snd c));
             agreement =
               (if length agent_outputs > 0
                then py_truediv (real max_count) (real (length agent_outputs))
                else Inr 1)
         in case agreement of
              Inl e \<Rightarrow> Inl e
            | Inr level \<Rightarrow>
                Inr \<lparr>distribution = action_counts,
                     agreement_level = level,
                     majority_action =
                       Some (case action_counts of
                               [] \<Rightarrow> ''HOLD''
                             | c # cs \<Rightarrow> fst (first_max_item c cs))\<rparr>))"

section \<open>base_agent.py: weighting and composite score\<close>

record weighted_signal =
  w_raw_value :: real
  w_signal :: string
  w_base_score :: real
  w_weight :: real
  w_weighted_score :: real

text \<open>
  The agent object: the specification's \<open>weights\<close> entry (\<open>None\<close> when the key is absent),
  the attribute \<open>self.weights\<close> and the attribute \<open>self.indicators\<close>. The two
  dictionaries are association lists in insertion order, since the code iterates over
  them and takes their length.
\<close>

record agent =
  a_spec_weights :: "(string \<times> real) list option"
  a_weights :: "(string \<times> real) list"
  a_indicators :: "(string \<times> indicator) list"

definition init_agent :: "(string \<times> real) list option \<Rightarrow> (string \<times> indicator) list \<Rightarrow> agent" where
  "init_agent spec_w inds =
     \<lparr>a_spec_weights = spec_w,
      a_weights = (case spec_w of None \<Rightarrow> [] | Some w \<Rightarrow> w),
      a_indicators = inds\<rparr>"

definition signal_entry :: "indicator \<Rightarrow> real \<Rightarrow> weighted_signal" where
  "signal_entry ind wt =
     (let sig = (case ind_signal ind of None \<Rightarrow> ''neutral'' | Some s \<Rightarrow> s);
          raw = (case ind_value ind of None \<Rightarrow> 50 | Some v \<Rightarrow> v);
          base = (if sig = ''bullish'' then 75
                  else if sig = ''bearish'' then 25
                  else 50)
      in \<lparr>w_raw_value = raw, w_signal = sig, w_base_score = base,
          w_weight = wt, w_weighted_score = base * wt\<rparr>)"

fun apply_weights ::
  "(string \<times> indicator) list \<Rightarrow> (string \<times> real) list
     \<Rightarrow> (string \<times> weighted_signal) list \<Rightarrow> (string \<times> weighted_signal) list" where
  "apply_weights inds [] weighted_scores = weighted_scores"
| "apply_weights inds ((indicator_name, wt) # rest) weighted_scores =
     (case map_of inds indicator_name of
        Some ind \<Rightarrow>
          apply_weights inds rest
            (AList.update indicator_name (signal_entry ind wt) weighted_scores)
      | None \<Rightarrow> apply_weights inds rest weighted_scores)"

definition default_weights :: "agent \<Rightarrow> py_error + agent" where
  \<comment> \<open>\<open>if not self.weights and self.indicators: self.weights = {name: equal_weight ...}\<close>\<close>
  "default_weights self =
     (if a_weights self = [] \<and> a_indicators self \<noteq> [] then
        (case py_truediv 1 (real (length (a_indicators self))) of
           Inl e \<Rightarrow> Inl e
         | Inr equal_weight \<Rightarrow>
             Inr (self\<lparr>a_weights :=
                    map (\<lambda>entry. (fst entry, equal_weight)) (a_indicators self)\<rparr>))
      else Inr self)"

definition weight_signals ::
  "agent \<Rightarrow> py_error + ((string \<times> weighted_signal) list \<times> agent)" where
  "weight_signals self =
     (case default_weights self of
        Inl e \<Rightarrow> Inl e
      | Inr self' \<Rightarrow>
          Inr (apply_weights (a_indicators self') (a_weights self') [], self'))"

definition calculate_composite_score ::
  "(string \<times> weighted_signal) list \<Rightarrow> py_error + real" where
  "calculate_composite_score weighted_signals =
     (if weighted_signals = [] then Inr 50
      else
        (let total_weight = sum_list (map (\<lambda>s. w_weight (snd s)) weighted_signals)
         in if total_weight = 0 then Inr 50
            else
              (let weighted_sum =
                     sum_list (map (\<lambda>s. w_weighted_score (snd s)) weighted_signals)
               in case py_truediv weighted_sum total_weight of
                    Inl e \<Rightarrow> Inl e
                  | Inr composite \<Rightarrow> Inr (max 0 (min 100 composite)))))"

section \<open>Notions of the specification\<close>

text \<open>
  The identifier a risk flag carries under its key \<open>flag\<close>, and the hard checks as the
  specification words them: a check fires when its indicator is present, has a value, and
  the value is at least the threshold.
\<close>

definition flag_id :: "jval \<Rightarrow> string" where
  "flag_id flag =
     (case flag of
        JObj kvs \<Rightarrow> (case map_of kvs ''flag'' of Some (JStr s) \<Rightarrow> s | _ \<Rightarrow> [])
      | _ \<Rightarrow> [])"

definition crosses :: "(string \<rightharpoonup> indicator) \<Rightarrow> string \<Rightarrow> real \<Rightarrow> bool" where
  "crosses inds name threshold =
     (case inds name of
        None \<Rightarrow> False
      | Some i \<Rightarrow> (case ind_value i of None \<Rightarrow> False | Some v \<Rightarrow> threshold \<le> v))"

definition fired_checks :: "(string \<rightharpoonup> indicator) \<Rightarrow> string list" where
  "fired_checks inds =
     (if crosses inds ''Cbbi'' 0.8 then [''cbbi_high''] else [])
     @ (if crosses inds ''Rainbow Bands'' 7 then [''rainbow_top''] else [])
     @ (if crosses inds ''Pi Cycle'' 0.95 then [''pi_cycle_top''] else [])"

definition check_at ::
  "(indicator \<Rightarrow> jval option) \<Rightarrow> (string \<rightharpoonup> indicator) \<Rightarrow> string \<Rightarrow> jval list" where
  "check_at chk inds name =
     (case inds name of None \<Rightarrow> [] | Some i \<Rightarrow> (case chk i of None \<Rightarrow> [] | Some f \<Rightarrow> [f]))"

definition de_risk_emoji :: "action_map \<Rightarrow> string" where
  \<comment> \<open>the emoji of the first table entry whose action is \<open>de-risk\<close>, with the source's default\<close>
  "de_risk_emoji config =
     (case find (\<lambda>mapping. band_action mapping = Some ''de-risk'') (consensus_to_action config) of
        None \<Rightarrow> red_circle_emoji
      | Some mapping \<Rightarrow> (case band_emoji mapping of None \<Rightarrow> red_circle_emoji | Some e \<Rightarrow> e))"

text \<open>The composite score as the specification words it: a clamped weighted mean.\<close>

definition weighted_mean :: "(string \<times> weighted_signal) list \<Rightarrow> real" where
  "weighted_mean ws =
     (\<Sum>s\<leftarrow>ws. w_weighted_score (snd s)) / (\<Sum>s\<leftarrow>ws. w_weight (snd s))"

definition clamp :: "real \<Rightarrow> real \<Rightarrow> real \<Rightarrow> real" where
  "clamp lo hi x = (if x < lo then lo else if hi < x then hi else x)"

text \<open>
  The Signal Scorer and the Vote Weighter as the specification words them: the fixed score
  of a signal, the equal weights \<open>1 / count(indicators)\<close> over every available indicator,
  the weights a call works with, and the Weighted Signal emitted for an indicator and a
  weight.
\<close>

definition score_of_signal :: "string \<Rightarrow> real" where
  "score_of_signal sig =
     (if sig = ''bullish'' then 75 else if sig = ''bearish'' then 25 else 50)"

definition equal_weights :: "(string \<times> indicator) list \<Rightarrow> (string \<times> real) list" where
  "equal_weights inds = map (\<lambda>entry. (fst entry, 1 / real (length inds))) inds"

definition effective_weights :: "agent \<Rightarrow> (string \<times> real) list" where
  "effective_weights self =
     (if a_weights self = [] \<and> a_indicators self \<noteq> []
      then equal_weights (a_indicators self) else a_weights self)"

definition emitted_signal :: "indicator \<Rightarrow> real \<Rightarrow> weighted_signal" where
  "emitted_signal ind wt =
     \<lparr>w_raw_value = (case ind_value ind of None \<Rightarrow> 50 | Some v \<Rightarrow> v),
      w_signal = (case ind_signal ind of None \<Rightarrow> ''neutral'' | Some s \<Rightarrow> s),
      w_base_score = score_of_signal (case ind_signal ind of None \<Rightarrow> ''neutral'' | Some s \<Rightarrow> s),
      w_weight = wt,
      w_weighted_score =
        score_of_signal (case ind_signal ind of None \<Rightarrow> ''neutral'' | Some s \<Rightarrow> s) * wt\<rparr>"

section \<open>Concrete inputs\<close>

definition plain_fmt :: formatter where "plain_fmt spec x = ''#''"

definition mk_indicator :: "string \<Rightarrow> real option \<Rightarrow> string option \<Rightarrow> indicator" where
  "mk_indicator n v s =
     \<lparr>ind_name = n, ind_value = v, ind_signal = s, ind_timestamp = ''2025-05-20''\<rparr>"

text \<open>A threshold table that lists the band [40, 60) before the band below 40.\<close>

definition misordered_table :: "band list" where
  "misordered_table =
     [\<lparr>band_min = Some 40, band_max = Some 60, band_action = Some ''hold'',
        band_emoji = Some yellow_circle_emoji\<rparr>,
      \<lparr>band_min = None, band_max = Some 40, band_action = Some ''de-risk'',
        band_emoji = Some red_circle_emoji\<rparr>,
      \<lparr>band_min = Some 60, band_max = None, band_action = Some ''buy'',
        band_emoji = Some ''<green-circle>''\<rparr>]"

definition buy_consensus :: consensus where
  "buy_consensus = [''action'' \<mapsto> JStr ''buy'', ''agent_votes'' \<mapsto> JList [],
                    ''distribution'' \<mapsto> JObj []]"

definition hot_indicators :: "string \<rightharpoonup> indicator" where
  "hot_indicators = [''Cbbi'' \<mapsto> mk_indicator ''CBBI'' (Some 0.85) (Some ''bearish'')]"

definition calm_indicators :: "string \<rightharpoonup> indicator" where
  "calm_indicators = [''Cbbi'' \<mapsto> mk_indicator ''CBBI'' (Some 0.5) (Some ''neutral'')]"

definition storm_indicators :: "string \<rightharpoonup> indicator" where
  "storm_indicators =
     [''Cbbi'' \<mapsto> mk_indicator ''CBBI'' (Some 0.8) (Some ''bearish''),
      ''Rainbow Bands'' \<mapsto> mk_indicator ''Rainbow Bands'' (Some 7) (Some ''bearish''),
      ''Pi Cycle'' \<mapsto> mk_indicator ''Pi Cycle'' (Some 0.95) (Some ''bearish'')]"

definition blank_indicators :: "string \<rightharpoonup> indicator" where
  "blank_indicators = [''Cbbi'' \<mapsto> mk_indicator ''CBBI'' None (Some ''neutral'')]"

definition lone_agent :: agent where
  "lone_agent = init_agent None [(''A'', mk_indicator ''A'' (Some 1) (Some ''bullish''))]"

definition pair_agent :: agent where
  "pair_agent = init_agent (Some [])
     [(''A'', mk_indicator ''A'' (Some 1) (Some ''bullish'')),
      (''B'', mk_indicator ''B'' None None)]"

definition declared_agent :: agent where
  "declared_agent = init_agent (Some [(''A'', 0.4), (''C'', 0.6)])
     [(''A'', mk_indicator ''A'' (Some 1) (Some ''bearish'')),
      (''B'', mk_indicator ''B'' None None)]"

definition vote :: "real \<Rightarrow> string option \<Rightarrow> agent_output" where
  "vote s a = \<lparr>out_score = Some s, out_action = a\<rparr>"

definition three_votes :: "agent_output list" where
  "three_votes = [vote 80 (Some ''BUY''), vote 60 (Some ''BUY''), vote 50 None]"

section \<open>Properties of determine_action\<close>

text \<open>
  Claim C7. The voter-level action mapping returns STRONG_BUY when the score is at least
  75, BUY when it is in [60, 75), STRONG_SELL when it is at most 25, SELL when it is in
  (25, 40], and HOLD otherwise; exactly 25 gives STRONG_SELL, exactly 40 gives SELL and
  100 gives STRONG_BUY.
\<close>

theorem determine_action_bands:
  "(75 \<le> score \<longrightarrow> determine_action score = ''STRONG_BUY'')
   \<and> (60 \<le> score \<and> score < 75 \<longrightarrow> determine_action score = ''BUY'')
   \<and> (score \<le> 25 \<longrightarrow> determine_action score = ''STRONG_SELL'')
   \<and> (25 < score \<and> score \<le> 40 \<longrightarrow> determine_action score = ''SELL'')
   \<and> (40 < score \<and> score < 60 \<longrightarrow> determine_action score = ''HOLD'')
   \<and> determine_action 25 = ''STRONG_SELL''
   \<and> determine_action 40 = ''SELL''
   \<and> determine_action 100 = ''STRONG_BUY''"
  by (simp add: determine_action_def)

theorem determine_action_bands_witness:
  "(75::real) \<le> 80 \<and> determine_action 80 = ''STRONG_BUY''
   \<and> (60::real) \<le> 65 \<and> (65::real) < 75 \<and> determine_action 65 = ''BUY''
   \<and> (20::real) \<le> 25 \<and> determine_action 20 = ''STRONG_SELL''
   \<and> (25::real) < 35 \<and> (35::real) \<le> 40 \<and> determine_action 35 = ''SELL''
   \<and> (40::real) < 50 \<and> (50::real) < 60 \<and> determine_action 50 = ''HOLD''"
  using determine_action_bands [of 80] determine_action_bands [of 65]
    determine_action_bands [of 20] determine_action_bands [of 35]
    determine_action_bands [of 50]
  by simp

section \<open>Properties of the consensus aggregator\<close>

text \<open>
  Claim C3, as stated: computing the consensus score from an empty collection of votes is
  a hard error. On the code it is not: with no agent outputs \<open>calculate_consensus_pct\<close>
  returns the neutral default 50.
\<close>

theorem calculate_consensus_pct_empty_counterexample:
  "calculate_consensus_pct [] = Inr 50"
  by (simp add: calculate_consensus_pct_def)

text \<open>
  Claim C3, amended: \<open>calculate_consensus_pct\<close> never fails. On zero votes it returns the
  neutral default 50, and otherwise the arithmetic mean of the scores, a vote without a
  score counting as 50.
\<close>

theorem calculate_consensus_pct_total:
  "calculate_consensus_pct agent_outputs =
     Inr (if agent_outputs = [] then 50
          else (\<Sum>output\<leftarrow>agent_outputs. case out_score output of None \<Rightarrow> 50 | Some s \<Rightarrow> s)
                 / real (length agent_outputs))"
  by (simp add: calculate_consensus_pct_def py_truediv_def)

theorem calculate_consensus_pct_total_witness:
  "calculate_consensus_pct [] = Inr 50
   \<and> calculate_consensus_pct
        [\<lparr>out_score = Some 80, out_action = Some ''STRONG_BUY''\<rparr>,
         \<lparr>out_score = Some 60, out_action = Some ''BUY''\<rparr>,
         \<lparr>out_score = Some 40, out_action = Some ''SELL''\<rparr>] = Inr 60"
  using calculate_consensus_pct_total [of "[]"]
    calculate_consensus_pct_total
      [of "[\<lparr>out_score = Some 80, out_action = Some ''STRONG_BUY''\<rparr>,
            \<lparr>out_score = Some 60, out_action = Some ''BUY''\<rparr>,
            \<lparr>out_score = Some 40, out_action = Some ''SELL''\<rparr>]"]
  by simp

text \<open>
  Claim C1 at a failing input. The table lists the band [40, 60) first and the score is
  10, below that band's min. The half-open rule rejects the first band and accepts the
  second (\<open>de-risk\<close>), but \<open>map_consensus_to_action\<close> returns the first band's action: its
  first test, \<open>'max' in mapping and consensus_pct < mapping['max']\<close>, does not ask
  whether the band has a min.
\<close>

theorem map_consensus_to_action_below_min:
  "res_action (map_consensus_to_action 10 (Some misordered_table)) = ''hold''
   \<and> \<not> half_open_match (misordered_table ! 0) 10
   \<and> half_open_match (misordered_table ! 1) 10
   \<and> band_action (misordered_table ! 1) = Some ''de-risk''"
  by (simp add: map_consensus_to_action_def consensus_to_action_def misordered_table_def
      below_max_def band_result_def half_open_match_def)

section \<open>Properties of the composite scorer\<close>

text \<open>
  Claim C6. The composite score is the weight-normalised mean
  \<open>sum(weighted_score) / sum(weight)\<close> clamped to [0, 100]; an empty mapping yields 50, and
  a mapping whose weights sum to zero yields 50 with no division error. In every case the
  function returns a value, and the value lies in [0, 100].
\<close>

theorem calculate_composite_score_spec:
  "(ws = [] \<longrightarrow> calculate_composite_score ws = Inr 50)
   \<and> ((\<Sum>s\<leftarrow>ws. w_weight (snd s)) = 0 \<longrightarrow> calculate_composite_score ws = Inr 50)
   \<and> (ws \<noteq> [] \<and> (\<Sum>s\<leftarrow>ws. w_weight (snd s)) \<noteq> 0 \<longrightarrow>
        calculate_composite_score ws = Inr (clamp 0 100 (weighted_mean ws)))
   \<and> (\<exists>r. calculate_composite_score ws = Inr r \<and> 0 \<le> r \<and> r \<le> 100)"
  by (auto simp: calculate_composite_score_def py_truediv_def clamp_def weighted_mean_def Let_def)

theorem calculate_composite_score_spec_witness:
  "calculate_composite_score [] = Inr 50
   \<and> calculate_composite_score
        [(''A'', \<lparr>w_raw_value = 1, w_signal = ''neutral'', w_base_score = 50,
                  w_weight = 0, w_weighted_score = 0\<rparr>)] = Inr 50
   \<and> calculate_composite_score
        [(''A'', \<lparr>w_raw_value = 1, w_signal = ''neutral'', w_base_score = 40,
                  w_weight = 1, w_weighted_score = 40\<rparr>),
         (''B'', \<lparr>w_raw_value = 1, w_signal = ''neutral'', w_base_score = 60,
                  w_weight = 1, w_weighted_score = 60\<rparr>)] = Inr 50"
  using calculate_composite_score_spec [of "[]"]
    calculate_composite_score_spec
      [of "[(''A'', \<lparr>w_raw_value = 1, w_signal = ''neutral'', w_base_score = 50,
                      w_weight = 0, w_weighted_score = 0\<rparr>)]"]
    calculate_composite_score_spec
      [of "[(''A'', \<lparr>w_raw_value = 1, w_signal = ''neutral'', w_base_score = 40,
                      w_weight = 1, w_weighted_score = 40\<rparr>),
            (''B'', \<lparr>w_raw_value = 1, w_signal = ''neutral'', w_base_score = 60,
                      w_weight = 1, w_weighted_score = 60\<rparr>)]"]
  by (simp add: clamp_def weighted_mean_def)

section \<open>Properties of the risk override engine\<close>

text \<open>
  Claim C10. Each of the three risk checks returns no flag on an indicator record without
  a \<open>value\<close> key; so when no indicator of the set has a value, no flag is collected and
  the consensus is returned with an empty \<open>risk_flags\<close> and \<open>risk_override\<close> false.
\<close>

theorem risk_checks_total_without_value:
  "(ind_value ind = None \<longrightarrow>
      check_cbbi_risk fmt ind = None
      \<and> check_rainbow_risk fmt ind = None
      \<and> check_pi_cycle_risk fmt ind = None)
   \<and> ((\<forall>i \<in> ran inds. ind_value i = None) \<longrightarrow>
      collect_risk_flags fmt inds = ([], None)
      \<and> apply_risk_overrides fmt config cons inds
          = cons(''risk_flags'' \<mapsto> JList [], ''risk_override'' \<mapsto> JBool False))"
proof -
  have a: "check_cbbi_risk fmt i = None \<and> check_rainbow_risk fmt i = None
           \<and> check_pi_cycle_risk fmt i = None" if "ind_value i = None" for i
    using that by (simp add: check_cbbi_risk_def check_rainbow_risk_def check_pi_cycle_risk_def)
  have b: "collect_risk_flags fmt inds = ([], None)" if h: "\<forall>i \<in> ran inds. ind_value i = None"
  proof -
    have "ind_value i = None" if "inds k = Some i" for k i
      using h that by (auto simp: ran_def)
    then show ?thesis
      by (auto simp: collect_risk_flags_def record_flag_def a Let_def split: option.splits)
  qed
  show ?thesis using a b by (simp add: apply_risk_overrides_def)
qed

theorem risk_checks_total_without_value_witness:
  "ind_value (mk_indicator ''CBBI'' None (Some ''neutral'')) = None
   \<and> check_cbbi_risk plain_fmt (mk_indicator ''CBBI'' None (Some ''neutral'')) = None
   \<and> ran blank_indicators = {mk_indicator ''CBBI'' None (Some ''neutral'')}
   \<and> apply_risk_overrides plain_fmt None buy_consensus blank_indicators ''risk_override''
       = Some (JBool False)"
proof -
  have r: "ran blank_indicators = {mk_indicator ''CBBI'' None (Some ''neutral'')}"
    by (simp add: blank_indicators_def)
  have v: "ind_value (mk_indicator ''CBBI'' None (Some ''neutral'')) = None"
    by (simp add: mk_indicator_def)
  show ?thesis
    using risk_checks_total_without_value
      [of "mk_indicator ''CBBI'' None (Some ''neutral'')" plain_fmt blank_indicators None buy_consensus]
    by (simp add: r v)
qed

text \<open>
  The flag list is either empty with no forced action, or non-empty with the forced
  action \<open>de-risk\<close>; it is the concatenation of the three checks' results, in the order
  CBBI, Rainbow Bands, Pi-Cycle.
\<close>

lemma collect_risk_flags_shape:
  "collect_risk_flags fmt inds = ([], None)
   \<or> (\<exists>fs. fs \<noteq> [] \<and> collect_risk_flags fmt inds = (fs, Some ''de-risk''))"
  by (simp add: collect_risk_flags_def record_flag_def Let_def split: option.splits)

lemma flag_id_cbbi:
  "check_cbbi_risk fmt i = Some f \<Longrightarrow> flag_id f = ''cbbi_high''"
  by (auto simp: check_cbbi_risk_def flag_id_def split: option.splits if_splits)

lemma flag_id_rainbow:
  "check_rainbow_risk fmt i = Some f \<Longrightarrow> flag_id f = ''rainbow_top''"
  by (auto simp: check_rainbow_risk_def flag_id_def split: option.splits if_splits)

lemma flag_id_pi:
  "check_pi_cycle_risk fmt i = Some f \<Longrightarrow> flag_id f = ''pi_cycle_top''"
  by (auto simp: check_pi_cycle_risk_def flag_id_def split: option.splits if_splits)

lemma cbbi_fires_iff:
  "crosses inds ''Cbbi'' 0.8 \<longleftrightarrow> (\<exists>i f. inds ''Cbbi'' = Some i \<and> check_cbbi_risk fmt i = Some f)"
  by (auto simp: crosses_def check_cbbi_risk_def split: option.splits)

lemma rainbow_fires_iff:
  "crosses inds ''Rainbow Bands'' 7 \<longleftrightarrow>
     (\<exists>i f. inds ''Rainbow Bands'' = Some i \<and> check_rainbow_risk fmt i = Some f)"
  by (auto simp: crosses_def check_rainbow_risk_def split: option.splits)

lemma pi_fires_iff:
  "crosses inds ''Pi Cycle'' 0.95 \<longleftrightarrow>
     (\<exists>i f. inds ''Pi Cycle'' = Some i \<and> check_pi_cycle_risk fmt i = Some f)"
  by (auto simp: crosses_def check_pi_cycle_risk_def split: option.splits)

lemma collect_risk_flags_parts:
  "fst (collect_risk_flags fmt inds) =
     check_at (check_cbbi_risk fmt) inds ''Cbbi''
     @ check_at (check_rainbow_risk fmt) inds ''Rainbow Bands''
     @ check_at (check_pi_cycle_risk fmt) inds ''Pi Cycle''"
  by (simp add: collect_risk_flags_def record_flag_def check_at_def Let_def split: option.splits)

lemma collect_risk_flags_ids:
  "map flag_id (fst (collect_risk_flags fmt inds)) = fired_checks inds"
proof -
  have 1: "map flag_id (check_at (check_cbbi_risk fmt) inds ''Cbbi'')
           = (if crosses inds ''Cbbi'' 0.8 then [''cbbi_high''] else [])"
    using cbbi_fires_iff [of inds fmt]
    by (auto simp: check_at_def flag_id_cbbi split: option.splits)
  have 2: "map flag_id (check_at (check_rainbow_risk fmt) inds ''Rainbow Bands'')
           = (if crosses inds ''Rainbow Bands'' 7 then [''rainbow_top''] else [])"
    using rainbow_fires_iff [of inds fmt]
    by (auto simp: check_at_def flag_id_rainbow split: option.splits)
  have 3: "map flag_id (check_at (check_pi_cycle_risk fmt) inds ''Pi Cycle'')
           = (if crosses inds ''Pi Cycle'' 0.95 then [''pi_cycle_top''] else [])"
    using pi_fires_iff [of inds fmt]
    by (auto simp: check_at_def flag_id_pi split: option.splits)
  show ?thesis
    by (simp only: collect_risk_flags_parts map_append 1 2 3 fired_checks_def)
qed

lemma apply_no_flags:
  "collect_risk_flags fmt inds = ([], None) \<Longrightarrow>
   apply_risk_overrides fmt config cons inds
     = cons(''risk_flags'' \<mapsto> JList [], ''risk_override'' \<mapsto> JBool False)"
  by (simp add: apply_risk_overrides_def)

lemma apply_with_flags:
  "collect_risk_flags fmt inds = (fs, Some ''de-risk'') \<Longrightarrow> fs \<noteq> [] \<Longrightarrow>
   apply_risk_overrides fmt config cons inds
     = cons(''risk_flags'' \<mapsto> JList fs,
            ''original_action'' \<mapsto> (case cons ''action'' of None \<Rightarrow> JStr ''hold'' | Some a \<Rightarrow> a),
            ''action'' \<mapsto> JStr ''de-risk'',
            ''emoji'' \<mapsto> JStr (de_risk_emoji config),
            ''risk_override'' \<mapsto> JBool True)"
  by (simp add: apply_risk_overrides_def de_risk_emoji_def Let_def)

text \<open>
  Claim C4. \<open>apply_risk_overrides\<close> stores under \<open>risk_flags\<close> one flag per hard check
  that fires (CBBI at least 0.8, Rainbow Bands at least 7, Pi-Cycle at least 0.95, each
  on its own). When a flag fired, \<open>original_action\<close> holds the previous action (\<open>hold\<close>
  when the consensus had none), \<open>action\<close> is \<open>de-risk\<close> and \<open>risk_override\<close> is true. When
  none fired, the result is the consensus with an empty \<open>risk_flags\<close> and \<open>risk_override\<close>
  false. In every case \<open>agent_votes\<close> and \<open>distribution\<close> are as in the input.
\<close>

theorem apply_risk_overrides_spec:
  "apply_risk_overrides fmt config cons inds ''risk_flags''
      = Some (JList (fst (collect_risk_flags fmt inds)))
   \<and> map flag_id (fst (collect_risk_flags fmt inds)) = fired_checks inds
   \<and> (fired_checks inds \<noteq> [] \<longrightarrow>
        apply_risk_overrides fmt config cons inds ''original_action''
          = Some (case cons ''action'' of None \<Rightarrow> JStr ''hold'' | Some a \<Rightarrow> a)
        \<and> apply_risk_overrides fmt config cons inds ''action'' = Some (JStr ''de-risk'')
        \<and> apply_risk_overrides fmt config cons inds ''risk_override'' = Some (JBool True))
   \<and> (fired_checks inds = [] \<longrightarrow>
        apply_risk_overrides fmt config cons inds
          = cons(''risk_flags'' \<mapsto> JList [], ''risk_override'' \<mapsto> JBool False))
   \<and> apply_risk_overrides fmt config cons inds ''agent_votes'' = cons ''agent_votes''
   \<and> apply_risk_overrides fmt config cons inds ''distribution'' = cons ''distribution''"
proof -
  have ids: "map flag_id (fst (collect_risk_flags fmt inds)) = fired_checks inds"
    by (rule collect_risk_flags_ids)
  show ?thesis
    using collect_risk_flags_shape [of fmt inds]
  proof
    assume none: "collect_risk_flags fmt inds = ([], None)"
    then have "fired_checks inds = []" using ids by simp
    then show ?thesis using none ids by (simp add: apply_no_flags)
  next
    assume "\<exists>fs. fs \<noteq> [] \<and> collect_risk_flags fmt inds = (fs, Some ''de-risk'')"
    then obtain fs where fs: "fs \<noteq> []" "collect_risk_flags fmt inds = (fs, Some ''de-risk'')"
      by blast
    then have "fired_checks inds \<noteq> []" using ids by auto
    then show ?thesis using fs ids by (simp add: apply_with_flags)
  qed
qed

theorem apply_risk_overrides_spec_witness:
  "fired_checks hot_indicators \<noteq> []
   \<and> apply_risk_overrides plain_fmt None buy_consensus hot_indicators ''original_action''
       = Some (JStr ''buy'')
   \<and> apply_risk_overrides plain_fmt None buy_consensus hot_indicators ''action''
       = Some (JStr ''de-risk'')
   \<and> apply_risk_overrides plain_fmt None buy_consensus hot_indicators ''risk_override''
       = Some (JBool True)
   \<and> fired_checks calm_indicators = []
   \<and> apply_risk_overrides plain_fmt None buy_consensus calm_indicators
       = buy_consensus(''risk_flags'' \<mapsto> JList [], ''risk_override'' \<mapsto> JBool False)
   \<and> map flag_id (fst (collect_risk_flags plain_fmt storm_indicators))
       = [''cbbi_high'', ''rainbow_top'', ''pi_cycle_top'']
   \<and> apply_risk_overrides plain_fmt None buy_consensus storm_indicators ''action''
       = Some (JStr ''de-risk'')"
proof -
  have hot: "fired_checks hot_indicators = [''cbbi_high'']"
    by (simp add: fired_checks_def crosses_def hot_indicators_def mk_indicator_def)
  have calm: "fired_checks calm_indicators = []"
    by (simp add: fired_checks_def crosses_def calm_indicators_def mk_indicator_def)
  have storm: "fired_checks storm_indicators = [''cbbi_high'', ''rainbow_top'', ''pi_cycle_top'']"
    by (simp add: fired_checks_def crosses_def storm_indicators_def mk_indicator_def)
  have act: "buy_consensus ''action'' = Some (JStr ''buy'')"
    by (simp add: buy_consensus_def)
  show ?thesis
    using apply_risk_overrides_spec [of plain_fmt None buy_consensus hot_indicators]
      apply_risk_overrides_spec [of plain_fmt None buy_consensus calm_indicators]
      apply_risk_overrides_spec [of plain_fmt None buy_consensus storm_indicators]
    by (simp add: hot calm storm act)
qed

text \<open>
  Claim C2, as stated: a second pass over the engine's own output, with the same
  indicators, yields an identical consensus. On the code it does not: the first pass over
  a \<open>buy\<close> consensus with CBBI at 0.85 records \<open>original_action = buy\<close>, and the second
  pass overwrites it with \<open>de-risk\<close>.
\<close>

theorem apply_risk_overrides_twice_counterexample:
  "apply_risk_overrides plain_fmt None
     (apply_risk_overrides plain_fmt None buy_consensus hot_indicators) hot_indicators
     ''original_action'' = Some (JStr ''de-risk'')
   \<and> apply_risk_overrides plain_fmt None buy_consensus hot_indicators ''original_action''
     = Some (JStr ''buy'')
   \<and> apply_risk_overrides plain_fmt None
       (apply_risk_overrides plain_fmt None buy_consensus hot_indicators) hot_indicators
     \<noteq> apply_risk_overrides plain_fmt None buy_consensus hot_indicators"
proof -
  have collect: "collect_risk_flags plain_fmt hot_indicators
      = (check_at (check_cbbi_risk plain_fmt) hot_indicators ''Cbbi'', Some ''de-risk'')"
    by (simp add: collect_risk_flags_def record_flag_def check_at_def check_cbbi_risk_def
        hot_indicators_def mk_indicator_def Let_def)
  have nonempty: "check_at (check_cbbi_risk plain_fmt) hot_indicators ''Cbbi'' \<noteq> []"
    by (simp add: check_at_def check_cbbi_risk_def hot_indicators_def mk_indicator_def)
  have once: "apply_risk_overrides plain_fmt None buy_consensus hot_indicators
      ''original_action'' = Some (JStr ''buy'')"
    by (simp add: apply_with_flags [OF collect nonempty] buy_consensus_def)
  have twice: "apply_risk_overrides plain_fmt None
      (apply_risk_overrides plain_fmt None buy_consensus hot_indicators) hot_indicators
      ''original_action'' = Some (JStr ''de-risk'')"
    by (simp add: apply_with_flags [OF collect nonempty])
  have differ: "apply_risk_overrides plain_fmt None
      (apply_risk_overrides plain_fmt None buy_consensus hot_indicators) hot_indicators
      \<noteq> apply_risk_overrides plain_fmt None buy_consensus hot_indicators"
  proof
    assume "apply_risk_overrides plain_fmt None
      (apply_risk_overrides plain_fmt None buy_consensus hot_indicators) hot_indicators
      = apply_risk_overrides plain_fmt None buy_consensus hot_indicators"
    then have "Some (JStr ''de-risk'') = Some (JStr ''buy'')"
      using once twice by simp
    then show False by simp
  qed
  from once twice differ show ?thesis by blast
qed

text \<open>
  Claim C2, amended: a second pass with the same indicators and the same action map
  yields the first pass's consensus in every field except \<open>original_action\<close>: the action, emoji, \<open>risk_override\<close>
  flag, \<open>risk_flags\<close> and all other fields are identical. When no flag fires the two
  results are identical; when a flag fires the second pass sets \<open>original_action\<close> to
  \<open>de-risk\<close>.
\<close>

theorem apply_risk_overrides_twice:
  "apply_risk_overrides fmt config (apply_risk_overrides fmt config cons inds) inds
     = (if fired_checks inds = [] then apply_risk_overrides fmt config cons inds
        else (apply_risk_overrides fmt config cons inds)
               (''original_action'' \<mapsto> JStr ''de-risk''))"
proof -
  have ids: "map flag_id (fst (collect_risk_flags fmt inds)) = fired_checks inds"
    by (rule collect_risk_flags_ids)
  show ?thesis
    using collect_risk_flags_shape [of fmt inds]
  proof
    assume none: "collect_risk_flags fmt inds = ([], None)"
    then have "fired_checks inds = []" using ids by simp
    then show ?thesis using none by (simp add: apply_no_flags)
  next
    assume "\<exists>fs. fs \<noteq> [] \<and> collect_risk_flags fmt inds = (fs, Some ''de-risk'')"
    then obtain fs where fs: "fs \<noteq> []" "collect_risk_flags fmt inds = (fs, Some ''de-risk'')"
      by blast
    then have "fired_checks inds \<noteq> []" using ids by auto
    then show ?thesis using fs by (auto simp: apply_with_flags fun_eq_iff)
  qed
qed

theorem apply_risk_overrides_twice_witness:
  "apply_risk_overrides plain_fmt None
     (apply_risk_overrides plain_fmt None buy_consensus calm_indicators) calm_indicators
     = apply_risk_overrides plain_fmt None buy_consensus calm_indicators
   \<and> apply_risk_overrides plain_fmt None
       (apply_risk_overrides plain_fmt None buy_consensus hot_indicators) hot_indicators
     = (apply_risk_overrides plain_fmt None buy_consensus hot_indicators)
         (''original_action'' \<mapsto> JStr ''de-risk'')"
proof -
  have hot: "fired_checks hot_indicators = [''cbbi_high'']"
    by (simp add: fired_checks_def crosses_def hot_indicators_def mk_indicator_def)
  have calm: "fired_checks calm_indicators = []"
    by (simp add: fired_checks_def crosses_def calm_indicators_def mk_indicator_def)
  show ?thesis
    using apply_risk_overrides_twice [of plain_fmt None buy_consensus calm_indicators]
      apply_risk_overrides_twice [of plain_fmt None buy_consensus hot_indicators]
    by (simp add: hot calm)
qed

section \<open>Properties of the distribution analysis\<close>

text \<open>
  The counting loop: the association list it returns maps exactly the actions that occur
  (together with the keys it started from) to their counts, and keeps its keys distinct.
\<close>

lemma count_votes_lookup:
  "map_of (count_votes ac outs) a =
     (if map_of ac a = None \<and> a \<notin> set (map vote_action outs) then None
      else Some ((case map_of ac a of None \<Rightarrow> 0 | Some c \<Rightarrow> c)
                 + count_list (map vote_action outs) a))"
proof (induction outs arbitrary: ac)
  case Nil
  then show ?case by (simp split: option.splits)
next
  case (Cons out rest)
  show ?case
    by (simp add: Cons.IH update_conv' Let_def split: option.splits)
qed

lemma count_votes_distinct:
  "distinct (map fst ac) \<Longrightarrow> distinct (map fst (count_votes ac outs))"
  by (induction outs arbitrary: ac) (simp_all add: distinct_update Let_def)

lemma count_votes_items:
  "set (count_votes [] outs)
     = (\<lambda>a. (a, count_list (map vote_action outs) a)) ` set (map vote_action outs)"
proof -
  have d: "distinct (map fst (count_votes [] outs))"
    by (rule count_votes_distinct) simp
  have "(a, n) \<in> set (count_votes [] outs) \<longleftrightarrow>
          a \<in> set (map vote_action outs) \<and> n = count_list (map vote_action outs) a" for a n
    using map_of_eq_Some_iff [OF d, of a n, symmetric] count_votes_lookup [of "[]" outs a]
    by auto
  then show ?thesis by auto
qed

lemma first_max_item_mem: "first_max_item best items \<in> set (best # items)"
  by (induction items arbitrary: best) auto

lemma first_max_item_ge:
  "y \<in> set (best # items) \<Longrightarrow> snd y \<le> snd (first_max_item best items)"
proof (induction items arbitrary: best y)
  case Nil
  then show ?case by simp
next
  case (Cons item rest)
  let ?b = "if snd best < snd item then item else best"
  have IH: "snd z \<le> snd (first_max_item ?b rest)" if "z \<in> set (?b # rest)" for z
    using that by (rule Cons.IH)
  have b: "snd ?b \<le> snd (first_max_item ?b rest)"
    by (rule IH) simp
  have "snd best \<le> snd ?b" and "snd item \<le> snd ?b"
    by simp_all
  with b have best: "snd best \<le> snd (first_max_item ?b rest)"
    and item: "snd item \<le> snd (first_max_item ?b rest)"
    by (blast intro: order_trans)+
  from Cons.prems consider "y = best" | "y = item" | "y \<in> set rest" by auto
  then have "snd y \<le> snd (first_max_item ?b rest)"
  proof cases
    case 1 then show ?thesis using best by simp
  next
    case 2 then show ?thesis using item by simp
  next
    case 3 then show ?thesis by (intro IH) simp
  qed
  then show ?case by simp
qed

text \<open>
  Claim C5, as stated: for every collection of votes the distribution maps each voter
  action to its count and \<open>majority_action\<close> is the action with the highest count. On the
  code this fails for a single vote: the early return for at most one voter yields an
  empty distribution and no \<open>majority_action\<close> key, so the lone voter's action is not
  counted.
\<close>

theorem analyze_agent_distribution_single_counterexample:
  "analyze_agent_distribution [vote 70 (Some ''BUY'')]
     = Inr \<lparr>distribution = [], agreement_level = 1, majority_action = None\<rparr>
   \<and> vote_action (vote 70 (Some ''BUY'')) = ''BUY''
   \<and> map_of (distribution \<lparr>distribution = [], agreement_level = 1, majority_action = None\<rparr>)
        ''BUY'' \<noteq> Some 1"
  by (simp add: analyze_agent_distribution_def vote_def vote_action_def)

text \<open>
  Claim C5, amended: for at least two votes, the distribution maps each literal voter
  action string (HOLD when a vote has no action) to its count, \<open>agreement_level\<close> is the
  count of the most common action divided by the number of voters, and \<open>majority_action\<close>
  is an action with the highest count. For at most one vote the result is an empty
  distribution, \<open>agreement_level\<close> 1.0 and no \<open>majority_action\<close>.
\<close>

theorem analyze_agent_distribution_spec:
  "(length outs \<le> 1 \<longrightarrow>
      analyze_agent_distribution outs
        = Inr \<lparr>distribution = [], agreement_level = 1, majority_action = None\<rparr>)
   \<and> (2 \<le> length outs \<longrightarrow>
      (\<exists>r m. analyze_agent_distribution outs = Inr r
         \<and> distinct (map fst (distribution r))
         \<and> (\<forall>a. map_of (distribution r) a =
                  (if a \<in> set (map vote_action outs)
                   then Some (count_list (map vote_action outs) a) else None))
         \<and> agreement_level r
             = real (Max (count_list (map vote_action outs) ` set (map vote_action outs)))
               / real (length outs)
         \<and> majority_action r = Some m
         \<and> m \<in> set (map vote_action outs)
         \<and> (\<forall>a. count_list (map vote_action outs) a \<le> count_list (map vote_action outs) m)))"
proof (intro conjI impI)
  assume "length outs \<le> 1"
  then show "analyze_agent_distribution outs
        = Inr \<lparr>distribution = [], agreement_level = 1, majority_action = None\<rparr>"
    by (simp add: analyze_agent_distribution_def)
next
  assume len: "2 \<le> length outs"
  define acts where "acts = map vote_action outs"
  define ac where "ac = count_votes [] outs"
  have items: "set ac = (\<lambda>a. (a, count_list acts a)) ` set acts"
    unfolding ac_def acts_def by (rule count_votes_items)
  have "outs \<noteq> []" using len by auto
  then have "set acts \<noteq> {}" by (simp add: acts_def)
  then have "ac \<noteq> []" using items by auto
  then obtain c cs where ccs: "ac = c # cs" by (cases ac) auto
  define top where "top = first_max_item c cs"
  have top_mem: "top \<in> set ac" unfolding top_def ccs by (rule first_max_item_mem)
  have top_ge: "snd y \<le> snd top" if "y \<in> set ac" for y
    using that unfolding top_def ccs by (rule first_max_item_ge)
  have top_eq: "snd top = count_list acts (fst top)" and top_in: "fst top \<in> set acts"
    using top_mem items by auto
  have ge_all: "count_list acts a \<le> count_list acts (fst top)" for a
  proof (cases "a \<in> set acts")
    case True
    then have "(a, count_list acts a) \<in> set ac" using items by auto
    from top_ge [OF this] show ?thesis using top_eq by simp
  next
    case False
    then show ?thesis by simp
  qed
  have snds: "snd ` set ac = count_list acts ` set acts"
    using items by (auto simp: image_iff)
  have "fold max (map snd cs) (snd c) = Max (set (map snd ac))"
    unfolding ccs using Max.set_eq_fold [of "snd c" "map snd cs"] by simp
  then have maxc: "fold max (map snd cs) (snd c) = Max (count_list acts ` set acts)"
    using snds by simp
  define r where "r = \<lparr>distribution = ac,
      agreement_level = real (Max (count_list acts ` set acts)) / real (length outs),
      majority_action = Some (fst top)\<rparr>"
  have res: "analyze_agent_distribution outs = Inr r"
    using len \<open>outs \<noteq> []\<close> maxc
    by (simp add: analyze_agent_distribution_def Let_def py_truediv_def r_def ccs top_def
        flip: ac_def)
  have d: "distinct (map fst (distribution r))"
    unfolding r_def ac_def by (simp add: count_votes_distinct)
  have look: "\<forall>a. map_of (distribution r) a =
       (if a \<in> set acts then Some (count_list acts a) else None)"
    unfolding r_def ac_def acts_def by (simp add: count_votes_lookup)
  show "\<exists>r m. analyze_agent_distribution outs = Inr r
         \<and> distinct (map fst (distribution r))
         \<and> (\<forall>a. map_of (distribution r) a =
                  (if a \<in> set (map vote_action outs)
                   then Some (count_list (map vote_action outs) a) else None))
         \<and> agreement_level r
             = real (Max (count_list (map vote_action outs) ` set (map vote_action outs)))
               / real (length outs)
         \<and> majority_action r = Some m
         \<and> m \<in> set (map vote_action outs)
         \<and> (\<forall>a. count_list (map vote_action outs) a \<le> count_list (map vote_action outs) m)"
    using res d look top_in ge_all
    by (intro exI [of _ r] exI [of _ "fst top"]) (simp add: r_def flip: acts_def)
qed

theorem analyze_agent_distribution_spec_witness:
  "length three_votes = 3
   \<and> analyze_agent_distribution three_votes
       = Inr \<lparr>distribution = [(''BUY'', 2), (''HOLD'', 1)], agreement_level = 2 / 3,
              majority_action = Some ''BUY''\<rparr>
   \<and> analyze_agent_distribution []
       = Inr \<lparr>distribution = [], agreement_level = 1, majority_action = None\<rparr>"
  using analyze_agent_distribution_spec [of three_votes]
    analyze_agent_distribution_spec [of "[]"]
  by (simp add: analyze_agent_distribution_def three_votes_def vote_def vote_action_def
      py_truediv_def Let_def)

section \<open>Properties of the vote weighter\<close>

text \<open>
  The loop over the weights: afterwards a name is bound to the signal of its indicator
  and its (last) weight when both exist, and is otherwise as in the accumulator. The
  defaulting step never fails, since it divides only by the length of a non-empty list.
\<close>

lemma signal_entry_emitted: "signal_entry ind wt = emitted_signal ind wt"
  by (simp add: signal_entry_def emitted_signal_def score_of_signal_def Let_def)

lemma apply_weights_lookup:
  "map_of (apply_weights inds wts acc) n =
     (case map_of (rev wts) n of
        None \<Rightarrow> map_of acc n
      | Some w \<Rightarrow> (case map_of inds n of
                     None \<Rightarrow> map_of acc n
                   | Some ind \<Rightarrow> Some (signal_entry ind w)))"
proof (induction wts arbitrary: acc n)
  case Nil
  then show ?case by simp
next
  case (Cons entry rest)
  obtain k w where entry: "entry = (k, w)" by (cases entry)
  show ?case
    by (simp add: entry Cons.IH update_conv' map_add_def split: option.splits)
qed

lemma apply_weights_distinct:
  "distinct (map fst acc) \<Longrightarrow> distinct (map fst (apply_weights inds wts acc))"
proof (induction wts arbitrary: acc)
  case Nil
  then show ?case by simp
next
  case (Cons entry rest)
  obtain k w where entry: "entry = (k, w)" by (cases entry)
  show ?case
    using Cons.prems by (simp add: entry Cons.IH distinct_update split: option.splits)
qed

lemma map_of_rev_distinct:
  "distinct (map fst xs) \<Longrightarrow> map_of (rev xs) = map_of xs"
  by (rule map_of_inject_set [THEN iffD2]) (simp_all add: rev_map [symmetric])

lemma map_of_rev_equal_weights:
  "map_of (rev (equal_weights inds)) n =
     (if n \<in> fst ` set inds then Some (1 / real (length inds)) else None)"
proof -
  have "rev (equal_weights inds)
      = map (\<lambda>k. (k, 1 / real (length inds))) (rev (map fst inds))"
    by (simp add: equal_weights_def rev_map comp_def)
  then show ?thesis
    by (simp add: map_of_map_restrict restrict_map_def)
qed

lemma map_of_equal_weights:
  "map_of (equal_weights inds) n =
     (if n \<in> fst ` set inds then Some (1 / real (length inds)) else None)"
proof -
  have "equal_weights inds = map (\<lambda>k. (k, 1 / real (length inds))) (map fst inds)"
    by (simp add: equal_weights_def comp_def)
  then have "map_of (equal_weights inds)
      = (Some \<circ> (\<lambda>k. 1 / real (length inds))) |` set (map fst inds)"
    by (simp only: map_of_map_restrict)
  then show ?thesis
    by (simp add: restrict_map_def)
qed

lemma default_weights_result:
  "default_weights self = Inr (self\<lparr>a_weights := effective_weights self\<rparr>)"
  by (simp add: default_weights_def effective_weights_def equal_weights_def py_truediv_def)

lemma weight_signals_result:
  "weight_signals self =
     Inr (apply_weights (a_indicators self) (effective_weights self) [],
          self\<lparr>a_weights := effective_weights self\<rparr>)"
  by (simp add: weight_signals_def default_weights_result)

lemma effective_lookup_rev:
  assumes "distinct (map fst (a_weights self))"
  shows "map_of (rev (effective_weights self)) = map_of (effective_weights self)"
proof (cases "a_weights self = [] \<and> a_indicators self \<noteq> []")
  case True
  then show ?thesis
    by (auto simp: effective_weights_def map_of_rev_equal_weights map_of_equal_weights)
next
  case False
  then show ?thesis using assms by (auto simp: effective_weights_def map_of_rev_distinct)
qed

text \<open>
  Claim C8, as stated: for every voter weight mapping, one Weighted Signal is emitted per
  declared weight whose indicator exists. On the code this fails for the empty mapping:
  an agent that declares no weight and holds the indicator \<open>A\<close> gets a signal for \<open>A\<close>.
\<close>

theorem weight_signals_undeclared_counterexample:
  "a_weights lone_agent = []
   \<and> weight_signals lone_agent
       = Inr ([(''A'', \<lparr>w_raw_value = 1, w_signal = ''bullish'', w_base_score = 75,
                        w_weight = 1, w_weighted_score = 75\<rparr>)],
              lone_agent\<lparr>a_weights := [(''A'', 1)]\<rparr>)"
  by (simp add: weight_signals_def default_weights_def py_truediv_def
      lone_agent_def init_agent_def mk_indicator_def signal_entry_def)

text \<open>
  Claim C8, amended: \<open>weight_signals\<close> never fails and its result has unique keys. For a
  non-empty weight mapping (or when no indicator is available) it emits exactly one
  Weighted Signal per declared weight whose indicator name exists in the available set,
  skipping weights that name an absent indicator. For an empty mapping with at least one
  indicator it emits one per available indicator, with weight \<open>1 / count(indicators)\<close>.
  Each emitted entry has base score 75 for \<open>bullish\<close>, 25 for \<open>bearish\<close>, 50 for any other
  signal, and weighted score base score times weight.
\<close>

theorem weight_signals_spec:
  assumes "distinct (map fst (a_weights self))"
  shows "\<exists>ws self'. weight_signals self = Inr (ws, self')
     \<and> distinct (map fst ws)
     \<and> (\<not> (a_weights self = [] \<and> a_indicators self \<noteq> []) \<longrightarrow>
          (\<forall>n. map_of ws n =
            (case map_of (a_weights self) n of
               None \<Rightarrow> None
             | Some w \<Rightarrow> (case map_of (a_indicators self) n of
                            None \<Rightarrow> None
                          | Some ind \<Rightarrow> Some (emitted_signal ind w)))))
     \<and> (a_weights self = [] \<and> a_indicators self \<noteq> [] \<longrightarrow>
          (\<forall>n. map_of ws n =
            (case map_of (a_indicators self) n of
               None \<Rightarrow> None
             | Some ind \<Rightarrow>
                 Some (emitted_signal ind (1 / real (length (a_indicators self)))))))"
proof -
  let ?ws = "apply_weights (a_indicators self) (effective_weights self) []"
  have d: "distinct (map fst ?ws)"
    by (rule apply_weights_distinct) simp
  have look: "map_of ?ws n =
            (case map_of (effective_weights self) n of
               None \<Rightarrow> None
             | Some w \<Rightarrow> (case map_of (a_indicators self) n of
                            None \<Rightarrow> None
                          | Some ind \<Rightarrow> Some (emitted_signal ind w)))" for n
    by (simp add: apply_weights_lookup effective_lookup_rev [OF assms] signal_entry_emitted
        split: option.splits)
  have declared: "map_of ?ws n =
            (case map_of (a_weights self) n of
               None \<Rightarrow> None
             | Some w \<Rightarrow> (case map_of (a_indicators self) n of
                            None \<Rightarrow> None
                          | Some ind \<Rightarrow> Some (emitted_signal ind w)))"
    if "\<not> (a_weights self = [] \<and> a_indicators self \<noteq> [])" for n
  proof -
    from that have "effective_weights self = a_weights self"
      by (auto simp: effective_weights_def)
    then show ?thesis using look [of n] by simp
  qed
  have fallback: "map_of ?ws n =
            (case map_of (a_indicators self) n of
               None \<Rightarrow> None
             | Some ind \<Rightarrow>
                 Some (emitted_signal ind (1 / real (length (a_indicators self)))))"
    if "a_weights self = [] \<and> a_indicators self \<noteq> []" for n
  proof -
    from that have "effective_weights self = equal_weights (a_indicators self)"
      by (simp add: effective_weights_def)
    then have eff: "map_of ?ws n =
        (case map_of (equal_weights (a_indicators self)) n of
           None \<Rightarrow> None
         | Some w \<Rightarrow> (case map_of (a_indicators self) n of
                        None \<Rightarrow> None
                      | Some ind \<Rightarrow> Some (emitted_signal ind w)))"
      using look [of n] by simp
    show ?thesis
    proof (cases "map_of (a_indicators self) n")
      case None
      then show ?thesis using eff by (simp split: option.splits)
    next
      case (Some ind)
      then have "n \<in> fst ` set (a_indicators self)"
        using map_of_eq_None_iff [of "a_indicators self" n] by simp
      then show ?thesis using eff Some by (simp add: map_of_equal_weights)
    qed
  qed
  show ?thesis
    using d declared fallback by (simp add: weight_signals_result)
qed

theorem weight_signals_spec_witness:
  "distinct (map fst (a_weights declared_agent))
   \<and> weight_signals declared_agent
       = Inr ([(''A'', \<lparr>w_raw_value = 1, w_signal = ''bearish'', w_base_score = 25,
                        w_weight = 0.4, w_weighted_score = 10\<rparr>)], declared_agent)
   \<and> weight_signals lone_agent
       = Inr ([(''A'', \<lparr>w_raw_value = 1, w_signal = ''bullish'', w_base_score = 75,
                        w_weight = 1, w_weighted_score = 75\<rparr>)],
              lone_agent\<lparr>a_weights := [(''A'', 1)]\<rparr>)"
proof -
  have d: "distinct (map fst (a_weights declared_agent))"
    by (simp add: declared_agent_def init_agent_def)
  have l: "distinct (map fst (a_weights lone_agent))"
    by (simp add: lone_agent_def init_agent_def)
  show ?thesis
    using weight_signals_spec [OF d] weight_signals_spec [OF l]
    by (simp add: weight_signals_def default_weights_def py_truediv_def declared_agent_def
        lone_agent_def init_agent_def mk_indicator_def signal_entry_def)
qed

text \<open>
  Claim C9, as stated: the equal-weighting fallback leaves the voter's stored weights as
  they were. On the code it does not: after the call on an agent without weights and with
  two indicators, the attribute \<open>weights\<close> holds the synthesised mapping.
\<close>

theorem weight_signals_mutates_counterexample:
  "a_weights pair_agent = []
   \<and> weight_signals pair_agent
       = Inr ([(''A'', \<lparr>w_raw_value = 1, w_signal = ''bullish'', w_base_score = 75,
                        w_weight = 1 / 2, w_weighted_score = 75 / 2\<rparr>),
               (''B'', \<lparr>w_raw_value = 50, w_signal = ''neutral'', w_base_score = 50,
                        w_weight = 1 / 2, w_weighted_score = 25\<rparr>)],
              pair_agent\<lparr>a_weights := [(''A'', 1 / 2), (''B'', 1 / 2)]\<rparr>)
   \<and> a_weights (pair_agent\<lparr>a_weights := [(''A'', 1 / 2), (''B'', 1 / 2)]\<rparr>)
       \<noteq> a_weights pair_agent"
  by (simp add: weight_signals_def default_weights_def py_truediv_def
      pair_agent_def init_agent_def mk_indicator_def signal_entry_def)

text \<open>
  Claim C9, amended: when a voter declares no weights and at least one indicator is
  available, \<open>weight_signals\<close> computes with equal weights \<open>1 / count(indicators)\<close> over
  every available indicator and stores that synthesised mapping as the agent's \<open>weights\<close>
  attribute; the specification's own \<open>weights\<close> entry and the indicators are untouched. In
  every other case the agent is unchanged by the call.
\<close>

theorem weight_signals_stores_defaults:
  "\<exists>ws self'. weight_signals self = Inr (ws, self')
     \<and> a_spec_weights self' = a_spec_weights self
     \<and> a_indicators self' = a_indicators self
     \<and> (a_weights self = [] \<and> a_indicators self \<noteq> [] \<longrightarrow>
          a_weights self' = equal_weights (a_indicators self)
          \<and> (\<forall>n ind. map_of (a_indicators self) n = Some ind \<longrightarrow>
                map_of ws n = Some (emitted_signal ind (1 / real (length (a_indicators self))))))
     \<and> (\<not> (a_weights self = [] \<and> a_indicators self \<noteq> []) \<longrightarrow> self' = self)"
proof -
  let ?ws = "apply_weights (a_indicators self) (effective_weights self) []"
  have eq: "map_of ?ws n = Some (emitted_signal ind (1 / real (length (a_indicators self))))"
    if "a_weights self = [] \<and> a_indicators self \<noteq> []" "map_of (a_indicators self) n = Some ind"
    for n ind
  proof -
    have "n \<in> fst ` set (a_indicators self)"
      using that(2) map_of_eq_None_iff [of "a_indicators self" n] by simp
    then show ?thesis
      using that
      by (simp add: apply_weights_lookup effective_weights_def map_of_rev_equal_weights
          signal_entry_emitted)
  qed
  show ?thesis
    using eq by (auto simp: weight_signals_result effective_weights_def)
qed

theorem weight_signals_stores_defaults_witness:
  "a_weights pair_agent = []
   \<and> weight_signals pair_agent
       = Inr ([(''A'', \<lparr>w_raw_value = 1, w_signal = ''bullish'', w_base_score = 75,
                        w_weight = 1 / 2, w_weighted_score = 75 / 2\<rparr>),
               (''B'', \<lparr>w_raw_value = 50, w_signal = ''neutral'', w_base_score = 50,
                        w_weight = 1 / 2, w_weighted_score = 25\<rparr>)],
              pair_agent\<lparr>a_weights := equal_weights (a_indicators pair_agent)\<rparr>)
   \<and> a_weights declared_agent \<noteq> []
   \<and> weight_signals declared_agent
       = Inr ([(''A'', \<lparr>w_raw_value = 1, w_signal = ''bearish'', w_base_score = 25,
                        w_weight = 0.4, w_weighted_score = 10\<rparr>)], declared_agent)"
  using weight_signals_stores_defaults [of pair_agent]
    weight_signals_stores_defaults [of declared_agent]
  by (simp add: weight_signals_def default_weights_def py_truediv_def equal_weights_def
      pair_agent_def declared_agent_def init_agent_def mk_indicator_def signal_entry_def)

end
